theory Spec2Isabelle
  imports Complex_Main "HOL-Library.Sublist"
begin

section \<open>JavaScript values\<close>

text \<open>
  The values a request body can hold after \<^verbatim>\<open>express.json()\<close>, \<^verbatim>\<open>express.urlencoded\<close>
  or multer have parsed it. \<open>JUndefined\<close> is what reading an absent property gives.
  Strings are lists of characters; a character beyond ASCII appears as its UTF-8 bytes,
  which no operation below can confuse with the ASCII characters it looks for.
  A parsed number is never NaN, so a number is falsy exactly when it is zero.
\<close>

datatype jsval =
    JUndefined
  | JNull
  | JBool bool
  | JNum real
  | JStr string
  | JArr "jsval list"
  | JObj "(string \<times> jsval) list"

text \<open>JavaScript's ToBoolean, as used by \<^verbatim>\<open>!x\<close>, \<^verbatim>\<open>if (x)\<close> and \<^verbatim>\<open>x || y\<close>.\<close>

fun truthy :: "jsval \<Rightarrow> bool" where
  "truthy JUndefined = False"
| "truthy JNull = False"
| "truthy (JBool b) = b"
| "truthy (JNum n) = (n \<noteq> 0)"
| "truthy (JStr s) = (s \<noteq> [])"
| "truthy (JArr xs) = True"
| "truthy (JObj kvs) = True"

text \<open>
  What the program can throw: a \<^verbatim>\<open>multer.MulterError\<close> with its code and message, or any
  other \<^verbatim>\<open>Error\<close> (TypeError, FetchError, the errors the source creates with
  \<^verbatim>\<open>new Error(...)\<close>) with its message. The handlers tell the two apart with
  \<^verbatim>\<open>instanceof multer.MulterError\<close> and read nothing but \<^verbatim>\<open>code\<close> and \<^verbatim>\<open>message\<close>.
\<close>

datatype thrown =
    MulterError string string
  | JsError string

text \<open>
  Reading property \<open>k\<close> of a value (\<^verbatim>\<open>result.ok\<close>): a TypeError on \<^verbatim>\<open>undefined\<close> and
  \<^verbatim>\<open>null\<close> (Node puts the property name in single quotes), the stored value on an
  object that has the key, \<^verbatim>\<open>undefined\<close> otherwise (the keys read below are no
  property of a primitive or of an array). An object is the list of its pairs in the
  order of the JSON text; where a key is repeated the last pair counts, as it does for
  \<^verbatim>\<open>JSON.parse\<close>.
\<close>

fun get_prop :: "jsval \<Rightarrow> string \<Rightarrow> thrown + jsval" where
  "get_prop JUndefined k =
     Inl (JsError (''Cannot read properties of undefined (reading '' @ [CHR 0x27] @ k
                   @ [CHR 0x27] @ '')''))"
| "get_prop JNull k =
     Inl (JsError (''Cannot read properties of null (reading '' @ [CHR 0x27] @ k
                   @ [CHR 0x27] @ '')''))"
| "get_prop (JObj kvs) k = Inr (case map_of (rev kvs) k of None \<Rightarrow> JUndefined | Some v \<Rightarrow> v)"
| "get_prop v k = Inr JUndefined"

text \<open>
  A request body: the parsed object, as a map from field names to values (the body
  parsers leave an empty object when the request carried nothing they parse).
  Destructuring \<^verbatim>\<open>const { name } = req.body\<close> reads \<^verbatim>\<open>undefined\<close> for an absent field.
\<close>

type_synonym body = "string \<rightharpoonup> jsval"

definition body_field :: "body \<Rightarrow> string \<Rightarrow> jsval" where
  "body_field b k = (case b k of None \<Rightarrow> JUndefined | Some v \<Rightarrow> v)"

section \<open>Input sanitizer\<close>

text \<open>\<^verbatim>\<open>s.replace(/c/g, r)\<close> for a single character \<open>c\<close>: every occurrence is replaced.\<close>

definition replace_all :: "char \<Rightarrow> string \<Rightarrow> string \<Rightarrow> string" where
  "replace_all c r s = concat (map (\<lambda>x. if x = c then r else [x]) s)"

text \<open>\<^verbatim>\<open>text.replace(/</g, '&lt;').replace(/>/g, '&gt;')\<close> on a string.\<close>

definition escape_angle :: "string \<Rightarrow> string" where
  "escape_angle s = replace_all CHR ''>'' ''&gt;'' (replace_all CHR ''<'' ''&lt;'' s)"

text \<open>
  \<^verbatim>\<open>sanitizeInput\<close> of server.js (lines 87-90): a falsy argument gives the empty string;
  on anything else \<^verbatim>\<open>text.replace\<close> is called, which only a string has: on a truthy
  number, boolean, array or parsed object the call raises a TypeError.
\<close>

fun sanitizeInput :: "jsval \<Rightarrow> thrown + string" where
  "sanitizeInput text =
     (if \<not> truthy text then Inr []
      else (case text of
              JStr s \<Rightarrow> Inr (escape_angle s)
            | _ \<Rightarrow> Inl (JsError ''text.replace is not a function'')))"

text \<open>
  \<^verbatim>\<open>sanitizeInput\<close> of the second deployment (part_000, lines 30-36): the argument's type
  is tested first, so the function never raises.
\<close>

fun sanitizeInput2 :: "jsval \<Rightarrow> string" where
  "sanitizeInput2 (JStr s) = escape_angle s"
| "sanitizeInput2 v = []"

text \<open>What the sanitizer does to one character.\<close>

definition escape_char :: "char \<Rightarrow> string" where
  "escape_char x = (if x = CHR ''<'' then ''&lt;'' else if x = CHR ''>'' then ''&gt;'' else [x])"

section \<open>Effects, configuration and the outside world\<close>

text \<open>
  A multipart form the server sends: text fields, and a file field holding a read stream
  on a path together with the file name announced for it.
\<close>

datatype form_part = TextField string | StreamField string string

datatype payload =
    JsonBody "(string \<times> string) list"
  | FormBody "(string \<times> form_part) list"

text \<open>
  What a handler does to the outside world, in order: an outbound request to the bot API
  (\<^verbatim>\<open>fetch\<close>, with URL and body), a call of \<^verbatim>\<open>fs.createReadStream\<close>, a call of
  \<^verbatim>\<open>fs.unlink\<close> (which the file system may still refuse), and \<^verbatim>\<open>console.error\<close>
  (its first argument; the values logged after it are left out).
\<close>

datatype event =
    Fetch string payload
  | CreateReadStream string
  | Unlink string
  | ConsoleError string

text \<open>
  The configuration and everything the program does not decide itself:
  the two environment variables (unset is \<open>None\<close>), the uploads directory
  (\<^verbatim>\<open>path.join(__dirname, 'uploads')\<close>), Node's \<^verbatim>\<open>path.sep\<close> and \<^verbatim>\<open>path.resolve\<close>,
  \<^verbatim>\<open>fs.existsSync\<close>, whether an \<^verbatim>\<open>fs.unlink\<close> reports an error to its callback,
  the path under which multer's disk storage saves an upload
  (\<^verbatim>\<open>path.join(uploadsDir, Date.now() + '-' + random + '-' + originalname)\<close>, given the
  original name), and the bot API: what \<^verbatim>\<open>fetch\<close> followed by \<^verbatim>\<open>response.json()\<close>
  yields for a URL and a body, a parsed JSON value or an exception.
\<close>

record env =
  BOT_TOKEN :: "string option"
  CHAT_ID :: "string option"
  uploadsDir :: string
  sep :: char
  resolve :: "string \<Rightarrow> string"
  existsSync :: "string \<Rightarrow> bool"
  unlink_fails :: "string \<Rightarrow> bool"
  disk_path :: "string \<Rightarrow> string"
  api :: "string \<Rightarrow> payload \<Rightarrow> thrown + jsval"

text \<open>\<^verbatim>\<open>!BOT_TOKEN\<close> on an environment variable: unset and empty are falsy.\<close>

fun env_truthy :: "string option \<Rightarrow> bool" where
  "env_truthy None = False"
| "env_truthy (Some s) = (s \<noteq> [])"

text \<open>
  An environment variable interpolated into a template string. The chat id is passed on
  with this function too; every use below is behind a test that the variable is truthy.
\<close>

fun env_str :: "string option \<Rightarrow> string" where
  "env_str None = ''undefined''"
| "env_str (Some s) = s"

text \<open>
  A computation: the events it caused, and an exception or a value.
\<close>

type_synonym 'a comp = "event list \<times> (thrown + 'a)"

definition ret :: "'a \<Rightarrow> 'a comp" where
  "ret x = ([], Inr x)"

definition throw :: "thrown \<Rightarrow> 'a comp" where
  "throw e = ([], Inl e)"

definition lift :: "thrown + 'a \<Rightarrow> 'a comp" where
  "lift r = ([], r)"

definition emit :: "event list \<Rightarrow> unit comp" where
  "emit evs = (evs, Inr ())"

definition and_then :: "'a comp \<Rightarrow> ('a \<Rightarrow> 'b comp) \<Rightarrow> 'b comp" where
  "and_then m f =
     (case m of
        (evs, Inl e) \<Rightarrow> (evs, Inl e)
      | (evs, Inr x) \<Rightarrow> (case f x of (evs', r) \<Rightarrow> (evs @ evs', r)))"

record response =
  status :: nat
  success :: bool
  message :: string

definition nl :: string where
  "nl = [CHR 0x0A]"

definition startsWith :: "string \<Rightarrow> string \<Rightarrow> bool" where
  "startsWith s p = prefix p s"

definition endsWith :: "string \<Rightarrow> string \<Rightarrow> bool" where
  "endsWith s p = suffix p s"

definition js_includes :: "string \<Rightarrow> string \<Rightarrow> bool" where
  "js_includes s p = sublist p s"

section \<open>Path guard\<close>

text \<open>
  The check that \<^verbatim>\<open>removeFile\<close> (lines 154-163) and \<^verbatim>\<open>sendTelegramFile\<close>
  (lines 117-126) both make, word for word the same.
\<close>

definition normalizedUploadsPath :: "env \<Rightarrow> string" where
  "normalizedUploadsPath env =
     (let resolvedUploadsPath = resolve env (uploadsDir env)
      in if endsWith resolvedUploadsPath [sep env] then resolvedUploadsPath
         else resolvedUploadsPath @ [sep env])"

definition inside_uploads :: "env \<Rightarrow> string \<Rightarrow> bool" where
  "inside_uploads env filePath =
     (let resolvedPath = resolve env filePath;
          normalizedResolvedPath = resolvedPath @ [sep env]
      in startsWith normalizedResolvedPath (normalizedUploadsPath env))"

text \<open>\<^verbatim>\<open>removeFile\<close> (lines 152-173). It returns nothing and raises nothing.\<close>

definition removeFile :: "env \<Rightarrow> string \<Rightarrow> event list" where
  "removeFile env filePath =
     (if \<not> inside_uploads env filePath then
        [ConsoleError ''Attempted to remove file outside uploads directory:'']
      else if existsSync env filePath then
        Unlink filePath #
          (if unlink_fails env filePath then [ConsoleError ''Error removing file:''] else [])
      else [])"

text \<open>
  The components of a path: the non-empty pieces between separators. Directory \<open>d\<close>
  contains path \<open>p\<close> (both resolved) when the components of \<open>d\<close> are the first
  components of \<open>p\<close>; \<open>p\<close> is a descendant of \<open>d\<close> when it has more components on top.
\<close>

fun split_at :: "char \<Rightarrow> string \<Rightarrow> string list" where
  "split_at c [] = [[]]"
| "split_at c (x # xs) =
     (if x = c then [] # split_at c xs
      else (case split_at c xs of [] \<Rightarrow> [[x]] | piece # pieces \<Rightarrow> (x # piece) # pieces))"

definition components :: "char \<Rightarrow> string \<Rightarrow> string list" where
  "components c s = filter (\<lambda>piece. piece \<noteq> []) (split_at c s)"

definition within_dir :: "char \<Rightarrow> string \<Rightarrow> string \<Rightarrow> bool" where
  "within_dir c d p = prefix (components c d) (components c p)"

definition descendant_of :: "char \<Rightarrow> string \<Rightarrow> string \<Rightarrow> bool" where
  "descendant_of c d p = strict_prefix (components c d) (components c p)"

text \<open>
  Node's \<^verbatim>\<open>path.resolve\<close> with one argument on POSIX, for a working directory \<open>cwd\<close>
  that is absolute: a relative path is put behind \<open>cwd\<close>, empty and \<^verbatim>\<open>.\<close> components
  are dropped, \<^verbatim>\<open>..\<close> removes the component before it (none at the root), and the
  result has no trailing separator. The guard's theorems hold for every \<open>resolve\<close>;
  this one serves to run the functions on concrete paths.
\<close>

fun normalize_components :: "string list \<Rightarrow> string list \<Rightarrow> string list" where
  "normalize_components acc [] = rev acc"
| "normalize_components acc (s # ss) =
     (if s = [] \<or> s = ''.'' then normalize_components acc ss
      else if s = ''..'' then normalize_components (tl acc) ss
      else normalize_components (s # acc) ss)"

definition posix_resolve :: "string \<Rightarrow> string \<Rightarrow> string" where
  "posix_resolve cwd p =
     (let full = (if p = [] then cwd
                  else if hd p = CHR ''/'' then p
                  else cwd @ ''/'' @ p);
          cs = normalize_components [] (split_at CHR ''/'' full)
      in if cs = [] then ''/'' else concat (map (\<lambda>c. CHR ''/'' # c) cs))"

section \<open>External notifier\<close>

text \<open>\<^verbatim>\<open>sendTelegramTextMessage\<close> (lines 93-108).\<close>

definition sendTelegramTextMessage :: "env \<Rightarrow> string \<Rightarrow> string \<Rightarrow> jsval comp" where
  "sendTelegramTextMessage env chatId text =
     (let url = ''https://api.telegram.org/bot'' @ env_str (BOT_TOKEN env) @ ''/sendMessage'';
          body = JsonBody [(''chat_id'', chatId), (''text'', text), (''parse_mode'', ''HTML'')]
      in ([Fetch url body], api env url body))"

text \<open>
  The file object multer attaches to the request, with the fields the program reads.
\<close>

record upload_file =
  fieldname :: string
  originalname :: string
  mimetype :: string
  path :: string

text \<open>\<^verbatim>\<open>sendTelegramFile\<close> (lines 111-149).\<close>

definition sendTelegramFile :: "env \<Rightarrow> string \<Rightarrow> upload_file \<Rightarrow> string \<Rightarrow> bool \<Rightarrow> jsval comp" where
  "sendTelegramFile env chatId file caption isImage =
     (let endpoint = (if isImage then ''sendPhoto'' else ''sendDocument'');
          url = ''https://api.telegram.org/bot'' @ env_str (BOT_TOKEN env) @ ''/'' @ endpoint
      in if \<not> inside_uploads env (path file) then throw (JsError ''Invalid file path'')
         else
           (let fieldName = (if isImage then ''photo'' else ''document'');
                form = FormBody
                  ([(''chat_id'', TextField chatId),
                    (fieldName, StreamField (path file) (originalname file))]
                   @ (if caption \<noteq> [] then [(''caption'', TextField caption)] else []))
            in ([CreateReadStream (path file), Fetch url form], api env url form)))"

section \<open>Upload handler\<close>

definition fileSize :: nat where
  "fileSize = 20 * 1024 * 1024"

definition allowedMimes :: "string list" where
  "allowedMimes =
     [''image/jpeg'', ''image/png'', ''image/gif'', ''image/webp'', ''image/svg+xml'',
      ''application/pdf'',
      ''application/msword'',
      ''application/vnd.openxmlformats-officedocument.wordprocessingml.document'',
      ''application/vnd.ms-excel'',
      ''application/vnd.openxmlformats-officedocument.spreadsheetml.sheet'',
      ''application/vnd.ms-powerpoint'',
      ''application/vnd.openxmlformats-officedocument.presentationml.presentation'',
      ''text/plain'',
      ''application/zip'',
      ''application/x-rar-compressed'',
      ''video/mp4'', ''video/mpeg'', ''video/quicktime'',
      ''audio/mpeg'', ''audio/wav'', ''audio/ogg'']"

text \<open>
  \<^verbatim>\<open>fileFilter\<close> (lines 60-83), on \<^verbatim>\<open>file.mimetype\<close>, the MIME type multer reports for
  the file:
  \<^verbatim>\<open>cb(null, true)\<close> is \<open>Inr True\<close>, \<^verbatim>\<open>cb(new Error(...))\<close> is \<open>Inl\<close>.
\<close>

definition fileFilter :: "string \<Rightarrow> thrown + bool" where
  "fileFilter mime =
     (if mime \<in> set allowedMimes then Inr True
      else Inl (JsError
        ''File type not supported. Please upload images, documents, or common media files.''))"

text \<open>
  The allow-list as the specification enumerates it (section 6), for comparison with
  the list of the source.
\<close>

definition spec_allowed_types :: "string list" where
  "spec_allowed_types =
     [''image/jpeg'', ''image/png'', ''image/gif'', ''image/webp'', ''image/svg+xml'',
      ''application/pdf'', ''application/msword'',
      ''application/vnd.openxmlformats-officedocument.wordprocessingml.document'',
      ''application/vnd.ms-excel'',
      ''application/vnd.openxmlformats-officedocument.spreadsheetml.sheet'',
      ''application/vnd.ms-powerpoint'',
      ''application/vnd.openxmlformats-officedocument.presentationml.presentation'',
      ''text/plain'', ''application/zip'', ''application/x-rar-compressed'',
      ''video/mp4'', ''video/mpeg'', ''video/quicktime'',
      ''audio/mpeg'', ''audio/wav'', ''audio/ogg'']"

text \<open>
  The file part of an incoming multipart request, as multer has it once the part's
  header is read: the field it was sent in, the file name (\<^verbatim>\<open>file.originalname\<close>: the
  base name of the name the part announces), the MIME type (\<^verbatim>\<open>file.mimetype\<close>: the
  part's \<^verbatim>\<open>Content-Type\<close> in lower case and without its parameters, \<^verbatim>\<open>text/plain\<close>
  when the part declares none), and the number of bytes of content. The reading of
  the header is the library's and is not modelled: these are its results.
\<close>

record file_part =
  part_field :: string
  part_filename :: string
  part_mime :: string
  part_bytes :: nat

text \<open>
  \<^verbatim>\<open>upload.single('file')\<close> with the configuration of lines 45-84, for a request with at
  most one file part. Multer refuses a file in any other field than \<^verbatim>\<open>file\<close>, hands
  \<^verbatim>\<open>file.mimetype\<close> to the file filter as soon as the part's header is read, and then
  stores the content, failing with \<^verbatim>\<open>LIMIT_FILE_SIZE\<close> when it is longer than
  \<^verbatim>\<open>limits.fileSize\<close>. An error goes to \<^verbatim>\<open>next(err)\<close> (\<open>Inl\<close>); otherwise the route's
  handler runs with \<^verbatim>\<open>req.file\<close> set (\<open>Inr\<close>). The codes of the errors are multer's;
  the wording of their messages, and whether a file of exactly \<^verbatim>\<open>limits.fileSize\<close>
  bytes still passes (it does here), vary with the version of the library.
\<close>

definition upload_single :: "env \<Rightarrow> file_part option \<Rightarrow> thrown + upload_file option" where
  "upload_single env part =
     (case part of
        None \<Rightarrow> Inr None
      | Some p \<Rightarrow>
          if part_field p \<noteq> ''file'' then
            Inl (MulterError ''LIMIT_UNEXPECTED_FILE'' ''Unexpected field'')
          else
            (case fileFilter (part_mime p) of
               Inl e \<Rightarrow> Inl e
             | Inr accepted \<Rightarrow>
                 if \<not> accepted then Inr None
                 else if part_bytes p > fileSize then
                   Inl (MulterError ''LIMIT_FILE_SIZE'' ''File too large'')
                 else Inr (Some \<lparr>fieldname = part_field p, originalname = part_filename p,
                                 mimetype = part_mime p,
                                 path = disk_path env (part_filename p)\<rparr>)))"

section \<open>Request handlers of server.js\<close>

text \<open>
  The body of the \<^verbatim>\<open>try\<close> block of \<^verbatim>\<open>POST /send-message\<close> (lines 178-220).
  \<^verbatim>\<open>res.json\<close> without \<^verbatim>\<open>res.status\<close> answers 200.
\<close>

definition send_message_try :: "env \<Rightarrow> body \<Rightarrow> response comp" where
  "send_message_try env b =
     (let name = body_field b ''name'';
          email = body_field b ''email'';
          msg = body_field b ''message''
      in if \<not> truthy name \<or> \<not> truthy email \<or> \<not> truthy msg then
           ret \<lparr>status = 400, success = False,
                message = ''Name, email, and message are required.''\<rparr>
         else if \<not> env_truthy (BOT_TOKEN env) \<or> \<not> env_truthy (CHAT_ID env) then
           and_then (emit [ConsoleError ''Missing Telegram credentials'']) (\<lambda>_.
           ret \<lparr>status = 500, success = False,
                message = ''Server configuration error. Please contact administrator.''\<rparr>)
         else
           and_then (lift (sanitizeInput name)) (\<lambda>sanitizedName.
           and_then (lift (sanitizeInput email)) (\<lambda>sanitizedEmail.
           and_then (lift (sanitizeInput msg)) (\<lambda>sanitizedMessage.
           (let text = ''<b>New Contact Form Message</b>'' @ nl @ nl
                       @ ''<b>Name:</b> '' @ sanitizedName @ nl
                       @ ''<b>Email:</b> '' @ sanitizedEmail @ nl
                       @ ''<b>Message:</b>'' @ nl @ sanitizedMessage
            in and_then (sendTelegramTextMessage env (env_str (CHAT_ID env)) text) (\<lambda>result.
               and_then (lift (get_prop result ''ok'')) (\<lambda>ok.
               if truthy ok then
                 ret \<lparr>status = 200, success = True, message = ''Message sent successfully!''\<rparr>
               else
                 and_then (emit [ConsoleError ''Telegram API error:'']) (\<lambda>_.
                 ret \<lparr>status = 500, success = False,
                      message = ''Failed to send message. Please try again.''\<rparr>))))))))"

text \<open>
  \<^verbatim>\<open>POST /send-message\<close> (lines 176-228): the \<^verbatim>\<open>try\<close> block, and the \<^verbatim>\<open>catch\<close> block
  for whatever it raised. The result is the events and the one response sent.
\<close>

definition send_message :: "env \<Rightarrow> body \<Rightarrow> event list \<times> response" where
  "send_message env b =
     (case send_message_try env b of
        (evs, Inr r) \<Rightarrow> (evs, r)
      | (evs, Inl error) \<Rightarrow>
          (evs @ [ConsoleError ''Error in /send-message:''],
           \<lparr>status = 500, success = False,
            message = ''An error occurred while sending your message.''\<rparr>))"

text \<open>\<^verbatim>\<open>if (file) removeFile(file.path)\<close>.\<close>

definition remove_if_file :: "env \<Rightarrow> upload_file option \<Rightarrow> event list" where
  "remove_if_file env file = (case file of None \<Rightarrow> [] | Some f \<Rightarrow> removeFile env (path f))"

text \<open>The three calls of the sanitizer in \<^verbatim>\<open>POST /send-file\<close> (lines 258-260).\<close>

definition sanitize_fields :: "jsval \<Rightarrow> jsval \<Rightarrow> jsval \<Rightarrow> (string \<times> string \<times> string) comp" where
  "sanitize_fields name email explanation =
     and_then (lift (sanitizeInput name)) (\<lambda>sanitizedName.
     and_then (lift (sanitizeInput email)) (\<lambda>sanitizedEmail.
     and_then (lift (sanitizeInput explanation)) (\<lambda>sanitizedExplanation.
     ret (sanitizedName, sanitizedEmail, sanitizedExplanation))))"

text \<open>The branch \<^verbatim>\<open>if (file) { ... }\<close> after \<^verbatim>\<open>filePath = file.path\<close> (lines 265-294).\<close>

definition file_branch :: "env \<Rightarrow> upload_file \<Rightarrow> string \<Rightarrow> string \<Rightarrow> string \<Rightarrow> response comp" where
  "file_branch env file sanitizedName sanitizedEmail sanitizedExplanation =
     (let filePath = path file;
          caption = ''<b>New File Upload</b>'' @ nl @ nl
                    @ ''<b>Name:</b> '' @ sanitizedName @ nl
                    @ ''<b>Email:</b> '' @ sanitizedEmail
                    @ (if sanitizedExplanation \<noteq> []
                       then nl @ ''<b>Explanation:</b>'' @ nl @ sanitizedExplanation else []);
          isImage = startsWith (mimetype file) ''image/''
      in and_then (sendTelegramFile env (env_str (CHAT_ID env)) file caption isImage) (\<lambda>result.
         and_then (emit (removeFile env filePath)) (\<lambda>_.
         and_then (lift (get_prop result ''ok'')) (\<lambda>ok.
         if truthy ok then
           ret \<lparr>status = 200, success = True,
                message = ''File and information sent successfully!''\<rparr>
         else
           and_then (emit [ConsoleError ''Telegram API error:'']) (\<lambda>_.
           ret \<lparr>status = 500, success = False,
                message = ''Failed to send file. Please try again.''\<rparr>)))))"

text \<open>The branch \<^verbatim>\<open>else { ... }\<close> without a file (lines 296-318).\<close>

definition text_branch :: "env \<Rightarrow> string \<Rightarrow> string \<Rightarrow> string \<Rightarrow> response comp" where
  "text_branch env sanitizedName sanitizedEmail sanitizedExplanation =
     (let text = ''<b>New Contact Submission (No File)</b>'' @ nl @ nl
                 @ ''<b>Name:</b> '' @ sanitizedName @ nl
                 @ ''<b>Email:</b> '' @ sanitizedEmail
                 @ (if sanitizedExplanation \<noteq> []
                    then nl @ ''<b>Message:</b>'' @ nl @ sanitizedExplanation else [])
      in and_then (sendTelegramTextMessage env (env_str (CHAT_ID env)) text) (\<lambda>result.
         and_then (lift (get_prop result ''ok'')) (\<lambda>ok.
         if truthy ok then
           ret \<lparr>status = 200, success = True, message = ''Message sent successfully!''\<rparr>
         else
           and_then (emit [ConsoleError ''Telegram API error:'']) (\<lambda>_.
           ret \<lparr>status = 500, success = False,
                message = ''Failed to send message. Please try again.''\<rparr>))))"

text \<open>
  The \<^verbatim>\<open>try\<close> block of \<^verbatim>\<open>POST /send-file\<close> (lines 235-319). The second component is
  the value of the local variable \<^verbatim>\<open>filePath\<close> when the block ends or raises: it is
  \<^verbatim>\<open>null\<close> (\<open>None\<close>) until the file branch assigns \<^verbatim>\<open>file.path\<close> to it.
\<close>

definition send_file_try ::
  "env \<Rightarrow> body \<Rightarrow> upload_file option \<Rightarrow> event list \<times> string option \<times> (thrown + response)" where
  "send_file_try env b file =
     (let name = body_field b ''name'';
          email = body_field b ''email'';
          explanation = body_field b ''explanation''
      in if \<not> truthy name \<or> \<not> truthy email then
           (remove_if_file env file, None,
            Inr \<lparr>status = 400, success = False, message = ''Name and email are required.''\<rparr>)
         else if \<not> env_truthy (BOT_TOKEN env) \<or> \<not> env_truthy (CHAT_ID env) then
           (remove_if_file env file @ [ConsoleError ''Missing Telegram credentials''], None,
            Inr \<lparr>status = 500, success = False,
                 message = ''Server configuration error. Please contact administrator.''\<rparr>)
         else
           (case sanitize_fields name email explanation of
              (evs, Inl e) \<Rightarrow> (evs, None, Inl e)
            | (evs, Inr (sanitizedName, sanitizedEmail, sanitizedExplanation)) \<Rightarrow>
                (case file of
                   Some f \<Rightarrow>
                     (case file_branch env f sanitizedName sanitizedEmail sanitizedExplanation of
                        (evs', r) \<Rightarrow> (evs @ evs', Some (path f), r))
                 | None \<Rightarrow>
                     (case text_branch env sanitizedName sanitizedEmail sanitizedExplanation of
                        (evs', r) \<Rightarrow> (evs @ evs', None, r)))))"

text \<open>
  The \<^verbatim>\<open>catch\<close> block of \<^verbatim>\<open>POST /send-file\<close> (lines 320-343), given the value of
  \<^verbatim>\<open>filePath\<close> and the error caught. \<^verbatim>\<open>if (filePath)\<close> is false for \<^verbatim>\<open>null\<close> and
  for the empty string.
\<close>

definition send_file_catch :: "env \<Rightarrow> string option \<Rightarrow> thrown \<Rightarrow> event list \<times> response" where
  "send_file_catch env filePath error =
     ((case filePath of None \<Rightarrow> [] | Some p \<Rightarrow> if p \<noteq> [] then removeFile env p else [])
      @ [ConsoleError ''Error in /send-file:''],
      (case error of
         MulterError code m \<Rightarrow>
           if code = ''LIMIT_FILE_SIZE'' then
             \<lparr>status = 400, success = False, message = ''File size exceeds 20 MB limit.''\<rparr>
           else
             \<lparr>status = 400, success = False, message = ''File upload error: '' @ m\<rparr>
       | JsError m \<Rightarrow>
           \<lparr>status = 500, success = False,
            message = (if m \<noteq> [] then m
                       else ''An error occurred while processing your request.'')\<rparr>))"

text \<open>The handler of \<^verbatim>\<open>POST /send-file\<close> (lines 231-344), after multer.\<close>

definition send_file_handler :: "env \<Rightarrow> body \<Rightarrow> upload_file option \<Rightarrow> event list \<times> response" where
  "send_file_handler env b file =
     (case send_file_try env b file of
        (evs, filePath, Inr r) \<Rightarrow> (evs, r)
      | (evs, filePath, Inl error) \<Rightarrow>
          (case send_file_catch env filePath error of (evs', r) \<Rightarrow> (evs @ evs', r)))"

text \<open>The global error handler (lines 347-374).\<close>

definition global_error_handler :: "thrown \<Rightarrow> event list \<times> response" where
  "global_error_handler err =
     ([ConsoleError ''Global error handler:''],
      (case err of
         MulterError code m \<Rightarrow>
           if code = ''LIMIT_FILE_SIZE'' then
             \<lparr>status = 400, success = False, message = ''File size exceeds 20 MB limit.''\<rparr>
           else
             \<lparr>status = 400, success = False, message = ''File upload error: '' @ m\<rparr>
       | JsError m \<Rightarrow>
           if m \<noteq> [] \<and> js_includes m ''File type not supported'' then
             \<lparr>status = 400, success = False, message = m\<rparr>
           else
             \<lparr>status = 500, success = False, message = ''An unexpected error occurred.''\<rparr>))"

text \<open>
  The route \<^verbatim>\<open>app.post('/send-file', upload.single('file'), handler)\<close>: an error of the
  upload middleware skips the handler and reaches the global error handler.
\<close>

definition send_file_route :: "env \<Rightarrow> body \<Rightarrow> file_part option \<Rightarrow> event list \<times> response" where
  "send_file_route env b part =
     (case upload_single env part of
        Inl err \<Rightarrow> global_error_handler err
      | Inr file \<Rightarrow> send_file_handler env b file)"

section \<open>The second deployment (part_000)\<close>

text \<open>
  Lines 19-27: the process exits at start when a variable is missing, so the handler
  below only ever runs in an environment where this test holds.
\<close>

definition startup2_ok :: "env \<Rightarrow> bool" where
  "startup2_ok env = (\<not> (\<not> env_truthy (BOT_TOKEN env) \<or> \<not> env_truthy (CHAT_ID env)))"

text \<open>
  The template of lines 48-54. The pictographs are U+1F4E9, U+1F464, U+1F4E7 and
  U+1F4AC; the source indents with a no-break space followed by a space.
\<close>

definition telegramMessage :: "string \<Rightarrow> string \<Rightarrow> string \<Rightarrow> string" where
  "telegramMessage sanitizedName sanitizedEmail sanitizedMessage =
     nl @ [CHR 0xF0, CHR 0x9F, CHR 0x93, CHR 0xA9] @ '' <b>New Contact Form Submission</b>''
     @ nl @ [CHR 0xF0, CHR 0x9F, CHR 0x91, CHR 0xA4] @ '' <b>Name:</b> '' @ sanitizedName
     @ nl @ [CHR 0xF0, CHR 0x9F, CHR 0x93, CHR 0xA7] @ '' <b>Email:</b> '' @ sanitizedEmail
     @ nl @ [CHR 0xF0, CHR 0x9F, CHR 0x92, CHR 0xAC] @ '' <b>Message:</b>''
     @ nl @ sanitizedMessage
     @ nl @ concat (replicate 4 [CHR 0xC2, CHR 0xA0, CHR 0x20])"

text \<open>The \<^verbatim>\<open>try\<close> block of its \<^verbatim>\<open>POST /send-message\<close> (lines 41-76).\<close>

definition send_message2_try :: "env \<Rightarrow> body \<Rightarrow> response comp" where
  "send_message2_try env b =
     (let name = body_field b ''name'';
          email = body_field b ''email'';
          msg = body_field b ''message'';
          sanitizedName = sanitizeInput2 name;
          sanitizedEmail = sanitizeInput2 email;
          sanitizedMessage = sanitizeInput2 msg;
          text = telegramMessage sanitizedName sanitizedEmail sanitizedMessage;
          url = ''https://api.telegram.org/bot'' @ env_str (BOT_TOKEN env) @ ''/sendMessage'';
          payload = JsonBody [(''chat_id'', env_str (CHAT_ID env)), (''text'', text),
                              (''parse_mode'', ''HTML'')]
      in and_then ([Fetch url payload], api env url payload) (\<lambda>result.
         and_then (lift (get_prop result ''ok'')) (\<lambda>ok.
         if truthy ok then
           ret \<lparr>status = 200, success = True, message = ''Message sent successfully!''\<rparr>
         else
           and_then (emit [ConsoleError ''Telegram API Error:'']) (\<lambda>_.
           ret \<lparr>status = 500, success = False, message = ''Failed to send message.''\<rparr>))))"

text \<open>Its \<^verbatim>\<open>POST /send-message\<close> (lines 38-82).\<close>

definition send_message2 :: "env \<Rightarrow> body \<Rightarrow> event list \<times> response" where
  "send_message2 env b =
     (case send_message2_try env b of
        (evs, Inr r) \<Rightarrow> (evs, r)
      | (evs, Inl error) \<Rightarrow>
          (evs @ [ConsoleError ''Error in /send-message route:''],
           \<lparr>status = 500, success = False, message = ''An error occurred.''\<rparr>))"

text \<open>The outbound requests among the events of a handler.\<close>

fun is_fetch :: "event \<Rightarrow> bool" where
  "is_fetch (Fetch url p) = True"
| "is_fetch e = False"

definition outbound :: "event list \<Rightarrow> event list" where
  "outbound evs = filter is_fetch evs"

section \<open>A concrete environment\<close>

text \<open>
  An installation in \<^verbatim>\<open>/app\<close> on POSIX with both variables set, every path present,
  \<^verbatim>\<open>unlink\<close> failing on the uploads directory only (a directory cannot be unlinked)
  and a bot API that answers \<^verbatim>\<open>{"ok": true}\<close>; the theorems below are run on it.
\<close>

definition demo_env :: env where
  "demo_env =
     \<lparr>BOT_TOKEN = Some ''123:abc'', CHAT_ID = Some ''42'', uploadsDir = ''/app/uploads'',
      sep = CHR ''/'', resolve = posix_resolve ''/app'', existsSync = (\<lambda>p. True),
      unlink_fails = (\<lambda>p. posix_resolve ''/app'' p = ''/app/uploads''),
      disk_path = (\<lambda>n. ''/app/uploads/1700000000000-123456789-'' @ n),
      api = (\<lambda>u p. Inr (JObj [(''ok'', JBool True)]))\<rparr>"

text \<open>
  The same installation with a bot API that refuses the message, and with no network
  (node-fetch's error names the URL it could not reach).
\<close>

definition refusing_env :: env where
  "refusing_env = demo_env\<lparr>api := (\<lambda>u p. Inr (JObj [(''ok'', JBool False),
                        (''description'', JStr ''Bad Request: chat not found'')]))\<rparr>"

definition offline_env :: env where
  "offline_env = demo_env\<lparr>api := (\<lambda>u p. Inl (JsError
      (''request to '' @ u @ '' failed, reason: getaddrinfo ENOTFOUND api.telegram.org'')))\<rparr>"

text \<open>Request bodies and file parts for the examples.\<close>

definition contact_body :: body where
  "contact_body = [''name'' \<mapsto> JStr ''Ann <ann>'', ''email'' \<mapsto> JStr ''ann@example.org'',
                   ''message'' \<mapsto> JStr ''hello'']"

definition no_name_body :: body where
  "no_name_body = [''email'' \<mapsto> JStr ''ann@example.org'', ''message'' \<mapsto> JStr ''hello'']"

definition no_message_body :: body where
  "no_message_body = [''name'' \<mapsto> JStr ''Ann'', ''email'' \<mapsto> JStr ''ann@example.org'']"

definition array_name_body :: body where
  "array_name_body = [''name'' \<mapsto> JArr [JStr ''Ann''], ''email'' \<mapsto> JStr ''ann@example.org'']"

definition upload_body :: body where
  "upload_body = [''name'' \<mapsto> JStr ''Ann'', ''email'' \<mapsto> JStr ''ann@example.org'']"

definition pdf_part :: file_part where
  "pdf_part = \<lparr>part_field = ''file'', part_filename = ''cv.pdf'',
               part_mime = ''application/pdf'', part_bytes = 52133\<rparr>"

definition huge_png_part :: file_part where
  "huge_png_part = \<lparr>part_field = ''file'', part_filename = ''scan.png'',
               part_mime = ''image/png'', part_bytes = 20 * 1024 * 1024 + 1\<rparr>"

definition huge_exe_part :: file_part where
  "huge_exe_part = \<lparr>part_field = ''file'', part_filename = ''setup.exe'',
               part_mime = ''application/x-msdownload'', part_bytes = 20 * 1024 * 1024 + 1\<rparr>"

section \<open>Properties of the sanitizer\<close>

lemma replace_all_append: "replace_all c r (a @ b) = replace_all c r a @ replace_all c r b"
  by (simp add: replace_all_def)

lemma replace_all_Cons:
  "replace_all c r (x # xs) = (if x = c then r else [x]) @ replace_all c r xs"
  by (simp add: replace_all_def)

lemma replace_all_Nil: "replace_all c r [] = []"
  by (simp add: replace_all_def)

lemma escape_angle_Nil: "escape_angle [] = []"
  by (simp add: escape_angle_def replace_all_def)

lemma escape_angle_append: "escape_angle (a @ b) = escape_angle a @ escape_angle b"
  by (simp add: escape_angle_def replace_all_append)

lemma escape_angle_single: "escape_angle [x] = escape_char x"
  by (simp add: escape_angle_def replace_all_def escape_char_def)

lemma escape_angle_Cons: "escape_angle (x # xs) = escape_char x @ escape_angle xs"
  using escape_angle_append [of "[x]" xs] by (simp add: escape_angle_single)

text \<open>The sanitizer is the character-wise substitution, so it alters no other character.\<close>

lemma escape_angle_charwise: "escape_angle s = concat (map escape_char s)"
  by (induction s) (simp_all add: escape_angle_Nil escape_angle_Cons)

lemma escape_char_no_angle: "CHR ''<'' \<notin> set (escape_char x) \<and> CHR ''>'' \<notin> set (escape_char x)"
  by (simp add: escape_char_def)

lemma escape_angle_no_angle:
  "CHR ''<'' \<notin> set (escape_angle s) \<and> CHR ''>'' \<notin> set (escape_angle s)"
  by (induction s) (simp_all add: escape_angle_Nil escape_angle_Cons escape_char_no_angle)

lemma escape_angle_unchanged:
  "CHR ''<'' \<notin> set s \<Longrightarrow> CHR ''>'' \<notin> set s \<Longrightarrow> escape_angle s = s"
  by (induction s) (auto simp: escape_angle_Nil escape_angle_Cons escape_char_def)

lemma escape_angle_eq_Nil: "escape_angle s = [] \<longleftrightarrow> s = []"
  by (cases s) (simp_all add: escape_angle_Nil escape_angle_Cons escape_char_def)

text \<open>On strings the two deployments' sanitizers agree and do what the contract says.\<close>

lemma sanitizeInput_string: "sanitizeInput (JStr s) = Inr (escape_angle s)"
  by (simp add: escape_angle_Nil)

lemma sanitizeInput_falsy: "\<not> truthy v \<Longrightarrow> sanitizeInput v = Inr []"
  by simp

lemma sanitizeInput2_non_string: "(\<forall>s. v \<noteq> JStr s) \<Longrightarrow> sanitizeInput2 v = []"
  by (cases v) simp_all

lemma sanitizeInput_agree:
  "sanitizeInput v = Inr r \<Longrightarrow> sanitizeInput2 v = r"
  by (cases v) (auto simp: escape_angle_Nil split: if_splits)

text \<open>
  C3. The sanitizer is claimed total, with the empty string for every non-string input.
  The function of the second deployment is; the one of server.js is not: on the truthy
  non-string \<^verbatim>\<open>5\<close> (the body \<^verbatim>\<open>{"name": 5, ...}\<close> of a JSON request) it raises a
  TypeError instead of returning the empty string, where the second deployment returns it.
\<close>

theorem sanitizeInput_raises_on_number:
  "sanitizeInput (JNum 5) = Inl (JsError ''text.replace is not a function'')
   \<and> sanitizeInput2 (JNum 5) = []"
  by simp

section \<open>The concrete environment, evaluated\<close>

lemmas comp_defs = and_then_def ret_def lift_def emit_def throw_def

lemma demo_env_sel:
  "BOT_TOKEN demo_env = Some ''123:abc''"
  "CHAT_ID demo_env = Some ''42''"
  "uploadsDir demo_env = ''/app/uploads''"
  "sep demo_env = CHR ''/''"
  "resolve demo_env = posix_resolve ''/app''"
  "existsSync demo_env p = True"
  "unlink_fails demo_env p = (posix_resolve ''/app'' p = ''/app/uploads'')"
  "disk_path demo_env n = ''/app/uploads/1700000000000-123456789-'' @ n"
  "api demo_env u q = Inr (JObj [(''ok'', JBool True)])"
  by (simp_all add: demo_env_def)

lemma refusing_env_sel:
  "BOT_TOKEN refusing_env = Some ''123:abc''"
  "CHAT_ID refusing_env = Some ''42''"
  "api refusing_env u q = Inr (JObj [(''ok'', JBool False),
                        (''description'', JStr ''Bad Request: chat not found'')])"
  by (simp_all add: refusing_env_def demo_env_sel)

lemma offline_env_sel:
  "BOT_TOKEN offline_env = Some ''123:abc''"
  "CHAT_ID offline_env = Some ''42''"
  "uploadsDir offline_env = ''/app/uploads''"
  "sep offline_env = CHR ''/''"
  "resolve offline_env = posix_resolve ''/app''"
  "existsSync offline_env p = True"
  "unlink_fails offline_env p = (posix_resolve ''/app'' p = ''/app/uploads'')"
  "disk_path offline_env n = ''/app/uploads/1700000000000-123456789-'' @ n"
  "api offline_env u q = Inl (JsError
      (''request to '' @ u @ '' failed, reason: getaddrinfo ENOTFOUND api.telegram.org''))"
  by (simp_all add: offline_env_def demo_env_sel)

lemma body_examples:
  "contact_body ''name'' = Some (JStr ''Ann <ann>'')"
  "contact_body ''email'' = Some (JStr ''ann@example.org'')"
  "contact_body ''message'' = Some (JStr ''hello'')"
  "no_name_body ''name'' = None"
  "no_name_body ''email'' = Some (JStr ''ann@example.org'')"
  "no_name_body ''message'' = Some (JStr ''hello'')"
  "no_message_body ''name'' = Some (JStr ''Ann'')"
  "no_message_body ''email'' = Some (JStr ''ann@example.org'')"
  "no_message_body ''message'' = None"
  "array_name_body ''name'' = Some (JArr [JStr ''Ann''])"
  "array_name_body ''email'' = Some (JStr ''ann@example.org'')"
  "array_name_body ''explanation'' = None"
  "upload_body ''name'' = Some (JStr ''Ann'')"
  "upload_body ''email'' = Some (JStr ''ann@example.org'')"
  "upload_body ''explanation'' = None"
  by (simp_all add: contact_body_def no_name_body_def no_message_body_def array_name_body_def
      upload_body_def)

lemma escape_examples:
  "escape_angle ''Ann <ann>'' = ''Ann &lt;ann&gt;''"
  "escape_angle ''Ann'' = ''Ann''"
  "escape_angle ''ann@example.org'' = ''ann@example.org''"
  "escape_angle ''hello'' = ''hello''"
  by (simp_all add: escape_angle_def replace_all_def)

lemma resolve_examples:
  "posix_resolve ''/app'' ''/app/uploads'' = ''/app/uploads''"
  "posix_resolve ''/app'' ''/app/uploads/../server.js'' = ''/app/server.js''"
  "posix_resolve ''/app'' ''uploads/.'' = ''/app/uploads''"
  "posix_resolve ''/app'' ''/app/uploads-old/cv.pdf'' = ''/app/uploads-old/cv.pdf''"
  "posix_resolve ''/app'' ''/app/uploads/1700000000000-123456789-cv.pdf'' = ''/app/uploads/1700000000000-123456789-cv.pdf''"
  by (simp_all add: posix_resolve_def)

lemma components_examples:
  "components CHR ''/'' ''/app/uploads'' = [''app'', ''uploads'']"
  "components CHR ''/'' ''/app/server.js'' = [''app'', ''server.js'']"
  "components CHR ''/'' ''/app/uploads-old/cv.pdf'' = [''app'', ''uploads-old'', ''cv.pdf'']"
  by (simp_all add: components_def)

lemma stored_pdf_inside:
  "inside_uploads demo_env ''/app/uploads/1700000000000-123456789-cv.pdf''"
  "inside_uploads offline_env ''/app/uploads/1700000000000-123456789-cv.pdf''"
  by (simp_all add: inside_uploads_def normalizedUploadsPath_def demo_env_sel offline_env_sel
      posix_resolve_def startsWith_def endsWith_def suffix_to_prefix Let_def)

section \<open>Properties of the path guard\<close>


lemma split_at_not_Nil: "split_at c s \<noteq> []"
  by (cases s) (simp_all split: list.split)

lemma split_at_append_sep: "split_at c (a @ c # b) = split_at c a @ split_at c b"
proof (induction a)
  case Nil
  show ?case by simp
next
  case (Cons x a)
  obtain piece pieces where ne: "split_at c a = piece # pieces"
    using split_at_not_Nil [of c a] by (cases "split_at c a") auto
  show ?case
    using Cons.IH ne by simp
qed

lemma components_Nil: "components c [] = []"
  by (simp add: components_def)

lemma components_append_sep: "components c (a @ c # b) = components c a @ components c b"
  by (simp add: components_def split_at_append_sep)

lemma components_snoc_sep: "components c (a @ [c]) = components c a"
  using components_append_sep [of c a "[]"] by (simp add: components_Nil)

lemma normalizedUploadsPath_components:
  "\<exists>u. normalizedUploadsPath env = u @ [sep env]
       \<and> components (sep env) u = components (sep env) (resolve env (uploadsDir env))"
proof (cases "endsWith (resolve env (uploadsDir env)) [sep env]")
  case True
  then obtain u where u: "resolve env (uploadsDir env) = u @ [sep env]"
    by (auto simp: endsWith_def suffix_def)
  then have "normalizedUploadsPath env = u @ [sep env]"
    using True by (simp add: normalizedUploadsPath_def)
  moreover have "components (sep env) u = components (sep env) (resolve env (uploadsDir env))"
    using u by (simp add: components_snoc_sep)
  ultimately show ?thesis by blast
next
  case False
  then have "normalizedUploadsPath env = resolve env (uploadsDir env) @ [sep env]"
    by (simp add: normalizedUploadsPath_def)
  then show ?thesis by blast
qed

lemma inside_uploads_within:
  assumes "inside_uploads env p"
  shows "within_dir (sep env) (resolve env (uploadsDir env)) (resolve env p)"
proof -
  obtain u where u: "normalizedUploadsPath env = u @ [sep env]"
    and cu: "components (sep env) u = components (sep env) (resolve env (uploadsDir env))"
    using normalizedUploadsPath_components by blast
  from assms obtain rest where r: "resolve env p @ [sep env] = (u @ [sep env]) @ rest"
    by (auto simp: inside_uploads_def startsWith_def prefix_def u)
  have "components (sep env) (resolve env p) = components (sep env) (resolve env p @ [sep env])"
    by (simp add: components_snoc_sep)
  also have "\<dots> = components (sep env) (u @ sep env # rest)"
    using r by simp
  also have "\<dots> = components (sep env) u @ components (sep env) rest"
    by (rule components_append_sep)
  finally show ?thesis
    by (simp add: within_dir_def cu)
qed


lemma inside_uploads_root:
  "resolve env p = resolve env (uploadsDir env) \<Longrightarrow> inside_uploads env p"
  by (simp add: inside_uploads_def normalizedUploadsPath_def startsWith_def endsWith_def
      Let_def suffix_def prefix_def)

text \<open>
  C1. Claimed: a path whose resolved form is not a descendant of the uploads directory is
  refused by both guarded operations. The guard compares \<open>resolved @ sep\<close> with
  \<open>root @ sep\<close>, so what it refuses is every path that lies neither below the uploads
  directory nor on it: then \<^verbatim>\<open>removeFile\<close> only logs the violation and unlinks nothing,
  and \<^verbatim>\<open>sendTelegramFile\<close> raises before it opens a read stream or sends anything.
\<close>

theorem outside_path_refused:
  assumes "\<not> within_dir (sep env) (resolve env (uploadsDir env)) (resolve env p)"
  shows "removeFile env p = [ConsoleError ''Attempted to remove file outside uploads directory:'']
         \<and> sendTelegramFile env chatId (file\<lparr>path := p\<rparr>) caption isImage
             = ([], Inl (JsError ''Invalid file path''))"
proof -
  from assms have "\<not> inside_uploads env p"
    using inside_uploads_within by blast
  then show ?thesis
    by (simp add: removeFile_def sendTelegramFile_def throw_def Let_def)
qed

text \<open>
  The relative escape \<^verbatim>\<open>/app/uploads/../server.js\<close> is refused, and so is a file of
  the sibling directory \<^verbatim>\<open>/app/uploads-old\<close>, whose path starts with the characters
  of the uploads directory.
\<close>

theorem outside_path_refused_witness:
  "\<not> within_dir (sep demo_env) (resolve demo_env (uploadsDir demo_env))
       (resolve demo_env ''/app/uploads/../server.js'')
   \<and> removeFile demo_env ''/app/uploads/../server.js''
       = [ConsoleError ''Attempted to remove file outside uploads directory:'']
   \<and> sendTelegramFile demo_env ''42''
         \<lparr>fieldname = ''file'', originalname = ''server.js'', mimetype = ''text/plain'',
          path = ''/app/uploads/../server.js''\<rparr> ''hello'' False
       = ([], Inl (JsError ''Invalid file path''))
   \<and> \<not> within_dir (sep demo_env) (resolve demo_env (uploadsDir demo_env))
       (resolve demo_env ''/app/uploads-old/cv.pdf'')
   \<and> removeFile demo_env ''/app/uploads-old/cv.pdf''
       = [ConsoleError ''Attempted to remove file outside uploads directory:'']"
proof -
  have h: "\<not> within_dir (sep demo_env) (resolve demo_env (uploadsDir demo_env))
             (resolve demo_env ''/app/uploads/../server.js'')"
    by (simp add: demo_env_sel resolve_examples within_dir_def components_examples)
  have k: "\<not> within_dir (sep demo_env) (resolve demo_env (uploadsDir demo_env))
             (resolve demo_env ''/app/uploads-old/cv.pdf'')"
    by (simp add: demo_env_sel resolve_examples within_dir_def components_examples)
  show ?thesis
    using h k
      outside_path_refused [OF h, of "''42''"
        "\<lparr>fieldname = ''file'', originalname = ''server.js'', mimetype = ''text/plain'',
          path = ''/app/uploads/../server.js''\<rparr>" "''hello''" False]
      outside_path_refused [OF k, of "''42''"
        "\<lparr>fieldname = ''file'', originalname = ''cv.pdf'', mimetype = ''application/pdf'',
          path = ''/app/uploads-old/cv.pdf''\<rparr>" "''hello''" False]
    by simp
qed

text \<open>
  The uploads directory itself is no descendant of the uploads directory, and it is not
  refused: \<^verbatim>\<open>removeFile\<close> logs no violation and goes on to call \<^verbatim>\<open>fs.unlink\<close> on it
  (only the file system stops the deletion), and \<^verbatim>\<open>sendTelegramFile\<close> does not raise:
  it opens the read stream and sends the form.
\<close>

theorem root_itself_not_refused:
  "\<not> descendant_of (sep demo_env) (resolve demo_env (uploadsDir demo_env))
       (resolve demo_env ''/app/uploads'')
   \<and> removeFile demo_env ''/app/uploads''
       = [Unlink ''/app/uploads'', ConsoleError ''Error removing file:'']
   \<and> fst (sendTelegramFile demo_env ''42''
         \<lparr>fieldname = ''file'', originalname = ''uploads'', mimetype = ''text/plain'',
          path = ''/app/uploads''\<rparr> [] False)
       = [CreateReadStream ''/app/uploads'',
          Fetch ''https://api.telegram.org/bot123:abc/sendDocument''
            (FormBody [(''chat_id'', TextField ''42''),
                       (''document'', StreamField ''/app/uploads'' ''uploads'')])]"
proof -
  have i: "inside_uploads demo_env ''/app/uploads''"
    by (rule inside_uploads_root) (simp add: demo_env_sel)
  have d: "\<not> descendant_of (sep demo_env) (resolve demo_env (uploadsDir demo_env))
       (resolve demo_env ''/app/uploads'')"
    by (simp add: demo_env_sel descendant_of_def)
  have r: "removeFile demo_env ''/app/uploads''
       = [Unlink ''/app/uploads'', ConsoleError ''Error removing file:'']"
    using i by (simp add: removeFile_def demo_env_sel resolve_examples)
  have s: "fst (sendTelegramFile demo_env ''42''
         \<lparr>fieldname = ''file'', originalname = ''uploads'', mimetype = ''text/plain'',
          path = ''/app/uploads''\<rparr> [] False)
       = [CreateReadStream ''/app/uploads'',
          Fetch ''https://api.telegram.org/bot123:abc/sendDocument''
            (FormBody [(''chat_id'', TextField ''42''),
                       (''document'', StreamField ''/app/uploads'' ''uploads'')])]"
    using i by (simp add: sendTelegramFile_def demo_env_sel Let_def)
  from d r s show ?thesis by blast
qed

text \<open>
  C10. A path that resolves to the uploads directory itself passes the check of both
  functions, since \<open>resolved @ sep\<close> starts with \<open>root @ sep\<close> when the two are
  equal: \<^verbatim>\<open>removeFile\<close> goes on to the deletion (\<^verbatim>\<open>fs.unlink\<close> when the path exists)
  and \<^verbatim>\<open>sendTelegramFile\<close> goes on to open the read stream and send it.
\<close>

theorem root_path_accepted:
  assumes "resolve env p = resolve env (uploadsDir env)"
  shows "inside_uploads env p
         \<and> removeFile env p =
             (if existsSync env p
              then Unlink p # (if unlink_fails env p then [ConsoleError ''Error removing file:''] else [])
              else [])
         \<and> (\<exists>url form. sendTelegramFile env chatId (file\<lparr>path := p\<rparr>) caption isImage
               = ([CreateReadStream p, Fetch url form], api env url form))"
proof -
  have i: "inside_uploads env p"
    using assms by (rule inside_uploads_root)
  then show ?thesis
    by (simp add: removeFile_def sendTelegramFile_def Let_def)
qed

text \<open>The relative path \<^verbatim>\<open>uploads/.\<close> resolves to the uploads directory.\<close>

theorem root_path_accepted_witness:
  "resolve demo_env ''uploads/.'' = resolve demo_env (uploadsDir demo_env)
   \<and> inside_uploads demo_env ''uploads/.''
   \<and> removeFile demo_env ''uploads/.''
       = [Unlink ''uploads/.'', ConsoleError ''Error removing file:'']
   \<and> (\<exists>url form. sendTelegramFile demo_env ''42''
         \<lparr>fieldname = ''file'', originalname = ''x'', mimetype = ''text/plain'',
          path = ''uploads/.''\<rparr> ''hello'' False
       = ([CreateReadStream ''uploads/.'', Fetch url form], api demo_env url form))"
proof -
  have h: "resolve demo_env ''uploads/.'' = resolve demo_env (uploadsDir demo_env)"
    by (simp add: demo_env_sel resolve_examples)
  show ?thesis
    using h root_path_accepted [OF h, of "''42''"
       "\<lparr>fieldname = ''file'', originalname = ''x'', mimetype = ''text/plain'',
          path = ''uploads/.''\<rparr>" "''hello''" False]
    by (simp add: demo_env_sel resolve_examples)
qed

section \<open>Properties of the upload handler and the error mapper\<close>

text \<open>
  The allow-list of the source is the list of the specification, entry by entry.
\<close>

lemma allowedMimes_spec: "allowedMimes = spec_allowed_types"
  by (simp add: allowedMimes_def spec_allowed_types_def)

lemma unsupported_message_includes:
  "js_includes ''File type not supported. Please upload images, documents, or common media files.''
     ''File type not supported''"
  by (simp add: js_includes_def sublist_code)

lemma global_error_handler_unsupported:
  "global_error_handler (JsError
      ''File type not supported. Please upload images, documents, or common media files.'')
   = ([ConsoleError ''Global error handler:''],
      \<lparr>status = 400, success = False,
       message = ''File type not supported. Please upload images, documents, or common media files.''\<rparr>)"
  using unsupported_message_includes by (simp add: global_error_handler_def)

lemma mime_examples:
  "''application/x-msdownload'' \<notin> set allowedMimes"
  "''image/png'' \<in> set allowedMimes"
  "''application/pdf'' \<in> set allowedMimes"
  by (simp_all add: allowedMimes_def)

text \<open>
  C6. The file filter accepts a file exactly when its MIME type, \<^verbatim>\<open>file.mimetype\<close> as
  multer hands it to the filter, is one of the 21 different entries of the allow-list
  the specification enumerates. For any other type the filter gives the error
  ``File type not supported ...''; with that error from the upload middleware the
  handler is skipped, and the global error handler answers 400 with that message.
\<close>

theorem fileFilter_allow_list:
  "(fileFilter mime = Inr True \<longleftrightarrow> mime \<in> set spec_allowed_types)
   \<and> length spec_allowed_types = 21 \<and> distinct spec_allowed_types
   \<and> (mime \<notin> set spec_allowed_types \<longrightarrow>
        fileFilter mime = Inl (JsError
          ''File type not supported. Please upload images, documents, or common media files.'')
        \<and> send_file_route env b (Some \<lparr>part_field = ''file'', part_filename = fname,
                                         part_mime = mime, part_bytes = n\<rparr>)
            = ([ConsoleError ''Global error handler:''],
               \<lparr>status = 400, success = False,
                message = ''File type not supported. Please upload images, documents, or common media files.''\<rparr>))"
proof -
  have a: "fileFilter mime = Inr True \<longleftrightarrow> mime \<in> set spec_allowed_types"
    by (simp add: fileFilter_def allowedMimes_spec)
  have b: "fileFilter mime = Inl (JsError
          ''File type not supported. Please upload images, documents, or common media files.'')"
    if "mime \<notin> set spec_allowed_types"
    using that by (simp add: fileFilter_def allowedMimes_spec)
  have c: "send_file_route env b (Some \<lparr>part_field = ''file'', part_filename = fname,
                                         part_mime = mime, part_bytes = n\<rparr>)
            = ([ConsoleError ''Global error handler:''],
               \<lparr>status = 400, success = False,
                message = ''File type not supported. Please upload images, documents, or common media files.''\<rparr>)"
    if "mime \<notin> set spec_allowed_types"
    using b [OF that] by (simp add: send_file_route_def upload_single_def global_error_handler_unsupported)
  have l: "length spec_allowed_types = 21"
    by (simp add: spec_allowed_types_def)
  have d: "distinct spec_allowed_types"
    by (simp add: spec_allowed_types_def)
  show ?thesis
    using a b c l d by blast
qed

text \<open>
  An installer is refused with 400, a PNG image is accepted.
\<close>

theorem fileFilter_allow_list_witness:
  "''application/x-msdownload'' \<notin> set spec_allowed_types
   \<and> fileFilter ''application/x-msdownload'' = Inl (JsError
          ''File type not supported. Please upload images, documents, or common media files.'')
   \<and> send_file_route demo_env upload_body
        (Some \<lparr>part_field = ''file'', part_filename = ''setup.exe'',
               part_mime = ''application/x-msdownload'', part_bytes = 1024\<rparr>)
       = ([ConsoleError ''Global error handler:''],
          \<lparr>status = 400, success = False,
           message = ''File type not supported. Please upload images, documents, or common media files.''\<rparr>)
   \<and> ''image/png'' \<in> set spec_allowed_types
   \<and> fileFilter ''image/png'' = Inr True"
proof -
  have out: "''application/x-msdownload'' \<notin> set spec_allowed_types"
    by (simp add: spec_allowed_types_def)
  have inside: "''image/png'' \<in> set spec_allowed_types"
    by (simp add: spec_allowed_types_def)
  show ?thesis
    using out inside
      fileFilter_allow_list [of "''application/x-msdownload''" demo_env upload_body "''setup.exe''" 1024]
      fileFilter_allow_list [of "''image/png''" demo_env upload_body "''scan.png''" 1024]
    by simp
qed

text \<open>
  C7. Claimed: every request whose file exceeds 20 MiB is answered 400 with the fixed
  size-limit message, before the handler body runs and before any outbound call.
  What holds for every such request: the upload middleware fails, the handler does not
  run, the only effect is the log line of the global error handler (so no outbound
  call), and the response is 400 with \<open>success = False\<close>. The message is the fixed
  size-limit message when the file came in the field \<^verbatim>\<open>file\<close> with an allowed type.
\<close>

theorem oversize_rejected:
  assumes "part_bytes p > 20 * 1024 * 1024"
  shows "(\<exists>err. upload_single env (Some p) = Inl err
                \<and> send_file_route env b (Some p) = global_error_handler err)
         \<and> fst (send_file_route env b (Some p)) = [ConsoleError ''Global error handler:'']
         \<and> status (snd (send_file_route env b (Some p))) = 400
         \<and> success (snd (send_file_route env b (Some p))) = False
         \<and> (part_field p = ''file'' \<and> part_mime p \<in> set allowedMimes \<longrightarrow>
              message (snd (send_file_route env b (Some p))) = ''File size exceeds 20 MB limit.'')"
proof (cases "part_field p = ''file''")
  case False
  then have "upload_single env (Some p) = Inl (MulterError ''LIMIT_UNEXPECTED_FILE'' ''Unexpected field'')"
    by (simp add: upload_single_def)
  then show ?thesis
    using False by (simp add: send_file_route_def global_error_handler_def)
next
  case True
  show ?thesis
  proof (cases "part_mime p \<in> set allowedMimes")
    case False
    then have "upload_single env (Some p) = Inl (JsError
      ''File type not supported. Please upload images, documents, or common media files.'')"
      using True by (simp add: upload_single_def fileFilter_def)
    then show ?thesis
      using False by (simp add: send_file_route_def global_error_handler_unsupported)
  next
    case allowed: True
    have "upload_single env (Some p) = Inl (MulterError ''LIMIT_FILE_SIZE'' ''File too large'')"
      using True allowed assms by (simp add: upload_single_def fileFilter_def fileSize_def)
    then show ?thesis
      by (simp add: send_file_route_def global_error_handler_def)
  qed
qed

text \<open>
  A PNG image of 20 MiB and one byte.
\<close>

theorem oversize_rejected_witness:
  "part_bytes huge_png_part > 20 * 1024 * 1024
   \<and> upload_single demo_env (Some huge_png_part)
       = Inl (MulterError ''LIMIT_FILE_SIZE'' ''File too large'')
   \<and> send_file_route demo_env upload_body (Some huge_png_part)
       = ([ConsoleError ''Global error handler:''],
          \<lparr>status = 400, success = False, message = ''File size exceeds 20 MB limit.''\<rparr>)"
proof -
  have h: "part_bytes huge_png_part > 20 * 1024 * 1024"
    by (simp add: huge_png_part_def)
  have u: "upload_single demo_env (Some huge_png_part)
       = Inl (MulterError ''LIMIT_FILE_SIZE'' ''File too large'')"
    using mime_examples(2)
    by (simp add: upload_single_def huge_png_part_def fileFilter_def fileSize_def)
  have f: "part_field huge_png_part = ''file'' \<and> part_mime huge_png_part \<in> set allowedMimes"
    using mime_examples(2) by (simp add: huge_png_part_def)
  show ?thesis
    using h u f oversize_rejected [OF h, of demo_env upload_body]
    by (cases "send_file_route demo_env upload_body (Some huge_png_part)") (simp add: response.equality)
qed

text \<open>
  An installer of 20 MiB and one byte is refused by the file filter before its content
  is stored: the response is 400, but with the message about the type, not the fixed
  size-limit message.
\<close>

theorem oversize_unsupported_type_message:
  "part_bytes huge_exe_part > 20 * 1024 * 1024
   \<and> send_file_route demo_env upload_body (Some huge_exe_part)
       = ([ConsoleError ''Global error handler:''],
          \<lparr>status = 400, success = False,
           message = ''File type not supported. Please upload images, documents, or common media files.''\<rparr>)"
proof -
  have "upload_single demo_env (Some huge_exe_part) = Inl (JsError
      ''File type not supported. Please upload images, documents, or common media files.'')"
    using mime_examples(1) by (simp add: upload_single_def huge_exe_part_def fileFilter_def)
  then show ?thesis
    by (simp add: send_file_route_def global_error_handler_unsupported huge_exe_part_def)
qed



section \<open>Properties of the request handlers\<close>

lemma pdf_upload:
  "upload_single demo_env (Some pdf_part)
     = Inr (Some \<lparr>fieldname = ''file'', originalname = ''cv.pdf'', mimetype = ''application/pdf'',
                  path = ''/app/uploads/1700000000000-123456789-cv.pdf''\<rparr>)"
  "upload_single offline_env (Some pdf_part)
     = Inr (Some \<lparr>fieldname = ''file'', originalname = ''cv.pdf'', mimetype = ''application/pdf'',
                  path = ''/app/uploads/1700000000000-123456789-cv.pdf''\<rparr>)"
  by (simp_all add: upload_single_def pdf_part_def fileFilter_def allowedMimes_def fileSize_def
      demo_env_sel offline_env_sel)

lemma stored_pdf_removed:
  "removeFile demo_env ''/app/uploads/1700000000000-123456789-cv.pdf''
     = [Unlink ''/app/uploads/1700000000000-123456789-cv.pdf'']"
  "removeFile offline_env ''/app/uploads/1700000000000-123456789-cv.pdf''
     = [Unlink ''/app/uploads/1700000000000-123456789-cv.pdf'']"
  using stored_pdf_inside
  by (simp_all add: removeFile_def demo_env_sel offline_env_sel resolve_examples)


text \<open>
  C4. Claimed: a \<^verbatim>\<open>POST /send-message\<close> request with any of \<^verbatim>\<open>name\<close>, \<^verbatim>\<open>email\<close>,
  \<^verbatim>\<open>message\<close> absent is answered 400 with \<open>success = False\<close> and a message, and causes
  no outbound call. The handler of server.js does that: it has no effect at all and
  answers 400. The handler of the second deployment has no such check: it sanitizes the
  absent field to the empty string and makes its one outbound call.
\<close>

theorem missing_field_rejected:
  assumes "b ''name'' = None \<or> b ''email'' = None \<or> b ''message'' = None"
  shows "send_message env b
           = ([], \<lparr>status = 400, success = False,
                   message = ''Name, email, and message are required.''\<rparr>)
         \<and> outbound (fst (send_message2 env b))
           = [Fetch (''https://api.telegram.org/bot'' @ env_str (BOT_TOKEN env) @ ''/sendMessage'')
                (JsonBody [(''chat_id'', env_str (CHAT_ID env)),
                           (''text'', telegramMessage (sanitizeInput2 (body_field b ''name''))
                                        (sanitizeInput2 (body_field b ''email''))
                                        (sanitizeInput2 (body_field b ''message''))),
                           (''parse_mode'', ''HTML'')])]"
proof -
  have falsy: "\<not> truthy (body_field b ''name'') \<or> \<not> truthy (body_field b ''email'')
               \<or> \<not> truthy (body_field b ''message'')"
    using assms by (auto simp: body_field_def)
  have first: "send_message env b
           = ([], \<lparr>status = 400, success = False,
                   message = ''Name, email, and message are required.''\<rparr>)"
    using falsy by (auto simp: send_message_def send_message_try_def Let_def ret_def)
  have second: "outbound (fst (send_message2 env b))
           = [Fetch (''https://api.telegram.org/bot'' @ env_str (BOT_TOKEN env) @ ''/sendMessage'')
                (JsonBody [(''chat_id'', env_str (CHAT_ID env)),
                           (''text'', telegramMessage (sanitizeInput2 (body_field b ''name''))
                                        (sanitizeInput2 (body_field b ''email''))
                                        (sanitizeInput2 (body_field b ''message''))),
                           (''parse_mode'', ''HTML'')])]"
    by (simp add: send_message2_def send_message2_try_def Let_def comp_defs outbound_def
        split: sum.split prod.split)
  from first second show ?thesis by simp
qed

text \<open>
  A body without \<^verbatim>\<open>message\<close>.
\<close>

theorem missing_field_rejected_witness:
  "no_message_body ''message'' = None
   \<and> send_message demo_env no_message_body
       = ([], \<lparr>status = 400, success = False,
               message = ''Name, email, and message are required.''\<rparr>)
   \<and> outbound (fst (send_message2 demo_env no_message_body))
       = [Fetch ''https://api.telegram.org/bot123:abc/sendMessage''
            (JsonBody [(''chat_id'', ''42''),
                       (''text'', telegramMessage ''Ann'' ''ann@example.org'' []),
                       (''parse_mode'', ''HTML'')])]"
proof -
  have h: "no_message_body ''name'' = None \<or> no_message_body ''email'' = None
           \<or> no_message_body ''message'' = None"
    by (simp add: body_examples)
  show ?thesis
    using missing_field_rejected [OF h, of demo_env]
    by (simp add: body_examples body_field_def demo_env_sel escape_examples)
qed

text \<open>
  A body without \<^verbatim>\<open>name\<close>, sent to the second deployment: one outbound call, and the
  response is 200.
\<close>

theorem second_deployment_relays_without_name:
  "no_name_body ''name'' = None
   \<and> send_message2 demo_env no_name_body
       = ([Fetch ''https://api.telegram.org/bot123:abc/sendMessage''
            (JsonBody [(''chat_id'', ''42''),
                       (''text'', telegramMessage [] ''ann@example.org'' ''hello''),
                       (''parse_mode'', ''HTML'')])],
          \<lparr>status = 200, success = True, message = ''Message sent successfully!''\<rparr>)"
  by (simp add: send_message2_def send_message2_try_def Let_def comp_defs body_examples
      body_field_def demo_env_sel escape_examples)

lemma send_message_valid:
  assumes "b ''name'' = Some (JStr n)" "n \<noteq> []"
    and "b ''email'' = Some (JStr e)" "e \<noteq> []"
    and "b ''message'' = Some (JStr m)" "m \<noteq> []"
    and "env_truthy (BOT_TOKEN env)" "env_truthy (CHAT_ID env)"
  shows "send_message_try env b =
     and_then (sendTelegramTextMessage env (env_str (CHAT_ID env))
        (''<b>New Contact Form Message</b>'' @ nl @ nl
          @ ''<b>Name:</b> '' @ escape_angle n @ nl
          @ ''<b>Email:</b> '' @ escape_angle e @ nl
          @ ''<b>Message:</b>'' @ nl @ escape_angle m)) (\<lambda>result.
     and_then (lift (get_prop result ''ok'')) (\<lambda>ok.
       if truthy ok then
         ret \<lparr>status = 200, success = True, message = ''Message sent successfully!''\<rparr>
       else
         and_then (emit [ConsoleError ''Telegram API error:'']) (\<lambda>_.
         ret \<lparr>status = 500, success = False,
              message = ''Failed to send message. Please try again.''\<rparr>)))"
  using assms
  by (simp add: send_message_try_def body_field_def Let_def and_then_def lift_def)

text \<open>
  C8. For a valid \<^verbatim>\<open>POST /send-message\<close> request (the three fields are non-empty
  strings, both secrets are configured), when the bot API answers with a JSON value
  whose \<^verbatim>\<open>ok\<close> is truthy the response is 200 with \<open>success = True\<close>, and when its
  \<^verbatim>\<open>ok\<close> is falsy the response is 500 with \<open>success = False\<close>; in both deployments.
\<close>

theorem send_message_result_mapping:
  assumes "b ''name'' = Some (JStr n)" "n \<noteq> []"
    and "b ''email'' = Some (JStr e)" "e \<noteq> []"
    and "b ''message'' = Some (JStr m)" "m \<noteq> []"
    and "env_truthy (BOT_TOKEN env)" "env_truthy (CHAT_ID env)"
    and "\<And>url payload. api env url payload = Inr result"
    and "get_prop result ''ok'' = Inr ok"
  shows "snd (send_message env b) =
           (if truthy ok
            then \<lparr>status = 200, success = True, message = ''Message sent successfully!''\<rparr>
            else \<lparr>status = 500, success = False,
                  message = ''Failed to send message. Please try again.''\<rparr>)
         \<and> snd (send_message2 env b) =
           (if truthy ok
            then \<lparr>status = 200, success = True, message = ''Message sent successfully!''\<rparr>
            else \<lparr>status = 500, success = False, message = ''Failed to send message.''\<rparr>)"
proof -
  have one: "snd (send_message env b) =
           (if truthy ok
            then \<lparr>status = 200, success = True, message = ''Message sent successfully!''\<rparr>
            else \<lparr>status = 500, success = False,
                  message = ''Failed to send message. Please try again.''\<rparr>)"
    unfolding send_message_def send_message_valid [OF assms(1-8)]
    using assms(9,10)
    by (simp add: sendTelegramTextMessage_def comp_defs Let_def)
  have two: "snd (send_message2 env b) =
           (if truthy ok
            then \<lparr>status = 200, success = True, message = ''Message sent successfully!''\<rparr>
            else \<lparr>status = 500, success = False, message = ''Failed to send message.''\<rparr>)"
    using assms(9,10)
    by (simp add: send_message2_def send_message2_try_def comp_defs Let_def)
  from one two show ?thesis by simp
qed

text \<open>
  The API answering \<^verbatim>\<open>{"ok": true}\<close>, and answering \<^verbatim>\<open>{"ok": false, ...}\<close>.
\<close>

theorem send_message_result_mapping_witness:
  "snd (send_message demo_env contact_body)
     = \<lparr>status = 200, success = True, message = ''Message sent successfully!''\<rparr>
   \<and> snd (send_message2 demo_env contact_body)
     = \<lparr>status = 200, success = True, message = ''Message sent successfully!''\<rparr>
   \<and> snd (send_message refusing_env contact_body)
     = \<lparr>status = 500, success = False, message = ''Failed to send message. Please try again.''\<rparr>
   \<and> snd (send_message2 refusing_env contact_body)
     = \<lparr>status = 500, success = False, message = ''Failed to send message.''\<rparr>"
proof -
  have yes: "get_prop (JObj [(''ok'', JBool True)]) ''ok'' = Inr (JBool True)"
    by simp
  have no: "get_prop (JObj [(''ok'', JBool False),
                (''description'', JStr ''Bad Request: chat not found'')]) ''ok'' = Inr (JBool False)"
    by simp
  show ?thesis
    using send_message_result_mapping [of contact_body "''Ann <ann>''" "''ann@example.org''"
        "''hello''" demo_env "JObj [(''ok'', JBool True)]" "JBool True", OF _ _ _ _ _ _ _ _ _ yes]
      send_message_result_mapping [of contact_body "''Ann <ann>''" "''ann@example.org''"
        "''hello''" refusing_env "JObj [(''ok'', JBool False),
                (''description'', JStr ''Bad Request: chat not found'')]" "JBool False",
        OF _ _ _ _ _ _ _ _ _ no]
    by (simp add: body_examples demo_env_sel refusing_env_sel)
qed

text \<open>
  C9. Claimed: the two deployments are behaviourally equivalent. They are on valid
  requests, up to wording: when the three fields are non-empty strings, both secrets
  are configured and the bot API gives both the same outcome, each handler makes
  exactly one outbound call, to the same URL with the same chat id and parse mode (the
  layout of the text differs), and the two responses have the same status and the same
  success flag. The sanitizers agree on every string and on every falsy value.
\<close>

theorem deployments_agree_on_valid_requests:
  assumes "b ''name'' = Some (JStr n)" "n \<noteq> []"
    and "b ''email'' = Some (JStr e)" "e \<noteq> []"
    and "b ''message'' = Some (JStr m)" "m \<noteq> []"
    and "startup2_ok env"
    and "\<And>url payload. api env url payload = outcome"
  shows "status (snd (send_message env b)) = status (snd (send_message2 env b))
         \<and> success (snd (send_message env b)) = success (snd (send_message2 env b))
         \<and> outbound (fst (send_message env b))
           = [Fetch (''https://api.telegram.org/bot'' @ env_str (BOT_TOKEN env) @ ''/sendMessage'')
                (JsonBody [(''chat_id'', env_str (CHAT_ID env)),
                           (''text'', ''<b>New Contact Form Message</b>'' @ nl @ nl
                              @ ''<b>Name:</b> '' @ escape_angle n @ nl
                              @ ''<b>Email:</b> '' @ escape_angle e @ nl
                              @ ''<b>Message:</b>'' @ nl @ escape_angle m),
                           (''parse_mode'', ''HTML'')])]
         \<and> outbound (fst (send_message2 env b))
           = [Fetch (''https://api.telegram.org/bot'' @ env_str (BOT_TOKEN env) @ ''/sendMessage'')
                (JsonBody [(''chat_id'', env_str (CHAT_ID env)),
                           (''text'', telegramMessage (escape_angle n) (escape_angle e)
                                        (escape_angle m)),
                           (''parse_mode'', ''HTML'')])]
         \<and> sanitizeInput (JStr s) = Inr (sanitizeInput2 (JStr s))
         \<and> (\<not> truthy v \<longrightarrow> sanitizeInput v = Inr (sanitizeInput2 v))"
proof -
  have configured: "env_truthy (BOT_TOKEN env)" "env_truthy (CHAT_ID env)"
    using assms(7) by (simp_all add: startup2_ok_def)
  have falsy: "sanitizeInput v = Inr (sanitizeInput2 v)" if "\<not> truthy v"
    using that by (cases v) (simp_all add: escape_angle_Nil)
  have s2: "send_message2_try env b =
      and_then ([Fetch (''https://api.telegram.org/bot'' @ env_str (BOT_TOKEN env) @ ''/sendMessage'')
                (JsonBody [(''chat_id'', env_str (CHAT_ID env)),
                           (''text'', telegramMessage (escape_angle n) (escape_angle e)
                                        (escape_angle m)),
                           (''parse_mode'', ''HTML'')])], outcome) (\<lambda>result.
         and_then (lift (get_prop result ''ok'')) (\<lambda>ok.
         if truthy ok then
           ret \<lparr>status = 200, success = True, message = ''Message sent successfully!''\<rparr>
         else
           and_then (emit [ConsoleError ''Telegram API Error:'']) (\<lambda>_.
           ret \<lparr>status = 500, success = False, message = ''Failed to send message.''\<rparr>)))"
    using assms by (simp add: send_message2_try_def body_field_def Let_def)
  have s1: "send_message_try env b =
     and_then ([Fetch (''https://api.telegram.org/bot'' @ env_str (BOT_TOKEN env) @ ''/sendMessage'')
                (JsonBody [(''chat_id'', env_str (CHAT_ID env)),
                           (''text'', ''<b>New Contact Form Message</b>'' @ nl @ nl
                              @ ''<b>Name:</b> '' @ escape_angle n @ nl
                              @ ''<b>Email:</b> '' @ escape_angle e @ nl
                              @ ''<b>Message:</b>'' @ nl @ escape_angle m),
                           (''parse_mode'', ''HTML'')])], outcome) (\<lambda>result.
     and_then (lift (get_prop result ''ok'')) (\<lambda>ok.
       if truthy ok then
         ret \<lparr>status = 200, success = True, message = ''Message sent successfully!''\<rparr>
       else
         and_then (emit [ConsoleError ''Telegram API error:'']) (\<lambda>_.
         ret \<lparr>status = 500, success = False,
              message = ''Failed to send message. Please try again.''\<rparr>)))"
    unfolding send_message_valid [OF assms(1-6) configured]
    using assms(8) by (simp add: sendTelegramTextMessage_def Let_def)
  have main: "status (snd (send_message env b)) = status (snd (send_message2 env b))
         \<and> success (snd (send_message env b)) = success (snd (send_message2 env b))
         \<and> outbound (fst (send_message env b))
           = [Fetch (''https://api.telegram.org/bot'' @ env_str (BOT_TOKEN env) @ ''/sendMessage'')
                (JsonBody [(''chat_id'', env_str (CHAT_ID env)),
                           (''text'', ''<b>New Contact Form Message</b>'' @ nl @ nl
                              @ ''<b>Name:</b> '' @ escape_angle n @ nl
                              @ ''<b>Email:</b> '' @ escape_angle e @ nl
                              @ ''<b>Message:</b>'' @ nl @ escape_angle m),
                           (''parse_mode'', ''HTML'')])]
         \<and> outbound (fst (send_message2 env b))
           = [Fetch (''https://api.telegram.org/bot'' @ env_str (BOT_TOKEN env) @ ''/sendMessage'')
                (JsonBody [(''chat_id'', env_str (CHAT_ID env)),
                           (''text'', telegramMessage (escape_angle n) (escape_angle e)
                                        (escape_angle m)),
                           (''parse_mode'', ''HTML'')])]
         \<and> sanitizeInput (JStr s) = Inr (sanitizeInput2 (JStr s))"
  proof (cases outcome)
    case (Inl err)
    then show ?thesis
      unfolding send_message_def send_message2_def s1 s2
      by (simp add: comp_defs outbound_def escape_angle_Nil)
  next
    case (Inr result)
    show ?thesis
    proof (cases "get_prop result ''ok''")
      case (Inl err)
      then show ?thesis
        unfolding send_message_def send_message2_def s1 s2
        using Inr by (simp add: comp_defs outbound_def escape_angle_Nil)
    next
      case ok: (Inr ok)
      then show ?thesis
        unfolding send_message_def send_message2_def s1 s2
        using Inr by (simp add: comp_defs outbound_def escape_angle_Nil)
    qed
  qed
  from main falsy show ?thesis
    by blast
qed

text \<open>
  The valid request of the examples.
\<close>

theorem deployments_agree_on_valid_requests_witness:
  "startup2_ok demo_env
   \<and> status (snd (send_message demo_env contact_body))
       = status (snd (send_message2 demo_env contact_body))
   \<and> success (snd (send_message demo_env contact_body))
       = success (snd (send_message2 demo_env contact_body))
   \<and> outbound (fst (send_message demo_env contact_body))
       = [Fetch ''https://api.telegram.org/bot123:abc/sendMessage''
            (JsonBody [(''chat_id'', ''42''),
                       (''text'', ''<b>New Contact Form Message</b>'' @ nl @ nl
                          @ ''<b>Name:</b> Ann &lt;ann&gt;'' @ nl
                          @ ''<b>Email:</b> ann@example.org'' @ nl
                          @ ''<b>Message:</b>'' @ nl @ ''hello''),
                       (''parse_mode'', ''HTML'')])]
   \<and> outbound (fst (send_message2 demo_env contact_body))
       = [Fetch ''https://api.telegram.org/bot123:abc/sendMessage''
            (JsonBody [(''chat_id'', ''42''),
                       (''text'', telegramMessage ''Ann &lt;ann&gt;'' ''ann@example.org'' ''hello''),
                       (''parse_mode'', ''HTML'')])]
   \<and> sanitizeInput (JStr ''Ann <ann>'') = Inr (sanitizeInput2 (JStr ''Ann <ann>''))
   \<and> sanitizeInput JUndefined = Inr (sanitizeInput2 JUndefined)"
proof -
  have up: "startup2_ok demo_env"
    by (simp add: startup2_ok_def demo_env_sel)
  have f: "\<not> truthy JUndefined"
    by simp
  show ?thesis
    using up f
      deployments_agree_on_valid_requests [of contact_body "''Ann <ann>''" "''ann@example.org''"
        "''hello''" demo_env "Inr (JObj [(''ok'', JBool True)])" "''Ann <ann>''" JUndefined,
        OF _ _ _ _ _ _ up]
    by (simp add: body_examples demo_env_sel escape_examples del: sanitizeInput.simps)
qed

text \<open>
  A body without \<^verbatim>\<open>message\<close>: server.js answers 400 and calls nobody, the second
  deployment makes the outbound call and answers 200.
\<close>

theorem deployments_differ_without_message:
  "send_message demo_env no_message_body
     = ([], \<lparr>status = 400, success = False,
             message = ''Name, email, and message are required.''\<rparr>)
   \<and> send_message2 demo_env no_message_body
     = ([Fetch ''https://api.telegram.org/bot123:abc/sendMessage''
          (JsonBody [(''chat_id'', ''42''),
                     (''text'', telegramMessage ''Ann'' ''ann@example.org'' []),
                     (''parse_mode'', ''HTML'')])],
        \<lparr>status = 200, success = True, message = ''Message sent successfully!''\<rparr>)"
proof -
  have one: "send_message demo_env no_message_body
     = ([], \<lparr>status = 400, success = False,
             message = ''Name, email, and message are required.''\<rparr>)"
    by (simp add: send_message_def send_message_try_def Let_def ret_def body_examples
        body_field_def)
  have two: "send_message2 demo_env no_message_body
     = ([Fetch ''https://api.telegram.org/bot123:abc/sendMessage''
          (JsonBody [(''chat_id'', ''42''),
                     (''text'', telegramMessage ''Ann'' ''ann@example.org'' []),
                     (''parse_mode'', ''HTML'')])],
        \<lparr>status = 200, success = True, message = ''Message sent successfully!''\<rparr>)"
    by (simp add: send_message2_def send_message2_try_def Let_def comp_defs body_examples
        body_field_def demo_env_sel escape_examples)
  from one two show ?thesis by simp
qed

lemma sublist_mid: "sublist r (a @ r @ c)"
  by (auto simp: sublist_def)

lemma sublist_mid2: "sublist r (a @ r)"
  using sublist_mid [of r a "[]"] by simp

lemma sublist_front: "sublist r (r @ c)"
  using sublist_mid [of r "[]" c] by simp

lemma sanitizeInput_string_or_falsy:
  assumes "truthy v \<longrightarrow> (\<exists>s. v = JStr s)"
  shows "sanitizeInput v = Inr (sanitizeInput2 v)"
  using assms by (cases v) (auto simp: escape_angle_Nil)

lemma file_branch_removes:
  assumes "path f \<noteq> []"
  shows "case file_branch env f a b c of
           (evs, Inr r) \<Rightarrow> sublist (removeFile env (path f)) evs
         | (evs, Inl e) \<Rightarrow> True"
  by (auto simp: file_branch_def comp_defs Let_def sublist_mid sublist_mid2
      split: prod.splits sum.splits)

text \<open>
  Cleaning up. When none of the three text fields is a truthy non-string, every path
  through the handler of \<^verbatim>\<open>POST /send-file\<close> calls \<^verbatim>\<open>removeFile\<close> on the saved
  upload: the events of that call are among the handler's events.
\<close>

lemma send_file_handler_removes:
  assumes "truthy (body_field b ''name'') \<longrightarrow> (\<exists>s. body_field b ''name'' = JStr s)"
    and "truthy (body_field b ''email'') \<longrightarrow> (\<exists>s. body_field b ''email'' = JStr s)"
    and "truthy (body_field b ''explanation'') \<longrightarrow> (\<exists>s. body_field b ''explanation'' = JStr s)"
    and "path f \<noteq> []"
  shows "sublist (removeFile env (path f)) (fst (send_file_handler env b (Some f)))"
proof -
  let ?R = "removeFile env (path f)"
  have san: "sanitize_fields (body_field b ''name'') (body_field b ''email'')
               (body_field b ''explanation'')
             = ([], Inr (sanitizeInput2 (body_field b ''name''),
                         sanitizeInput2 (body_field b ''email''),
                         sanitizeInput2 (body_field b ''explanation'')))"
    by (simp add: sanitize_fields_def comp_defs
        sanitizeInput_string_or_falsy [OF assms(1)] sanitizeInput_string_or_falsy [OF assms(2)]
        sanitizeInput_string_or_falsy [OF assms(3)] del: sanitizeInput.simps)
  obtain evs r where fb: "file_branch env f (sanitizeInput2 (body_field b ''name''))
        (sanitizeInput2 (body_field b ''email'')) (sanitizeInput2 (body_field b ''explanation''))
        = (evs, r)"
    by (cases "file_branch env f (sanitizeInput2 (body_field b ''name''))
        (sanitizeInput2 (body_field b ''email'')) (sanitizeInput2 (body_field b ''explanation''))")
  have ok: "sublist ?R evs" if "r = Inr x" for x
    using file_branch_removes [OF assms(4), of env "sanitizeInput2 (body_field b ''name'')"
        "sanitizeInput2 (body_field b ''email'')" "sanitizeInput2 (body_field b ''explanation'')"]
      fb that by simp
  show ?thesis
  proof (cases "\<not> truthy (body_field b ''name'') \<or> \<not> truthy (body_field b ''email'')")
    case True
    then show ?thesis
      by (auto simp: send_file_handler_def send_file_try_def Let_def remove_if_file_def)
  next
    case fields: False
    show ?thesis
    proof (cases "\<not> env_truthy (BOT_TOKEN env) \<or> \<not> env_truthy (CHAT_ID env)")
      case True
      then show ?thesis
        using fields
        by (auto simp: send_file_handler_def send_file_try_def Let_def remove_if_file_def
            sublist_front)
    next
      case False
      then have t: "send_file_try env b (Some f) = (evs, Some (path f), r)"
        using fields by (simp add: send_file_try_def Let_def san fb)
      show ?thesis
      proof (cases r)
        case (Inl e)
        then show ?thesis
          using assms(4)
          by (simp add: send_file_handler_def t send_file_catch_def sublist_mid)
      next
        case (Inr x)
        then show ?thesis
          using ok [OF Inr] by (simp add: send_file_handler_def t)
      qed
    qed
  qed
qed

text \<open>
  The request of the examples with a PDF attached: sent, then unlinked.
\<close>

lemma upload_removed_on_success:
  "send_file_route demo_env upload_body (Some pdf_part)
     = ([CreateReadStream ''/app/uploads/1700000000000-123456789-cv.pdf'',
         Fetch ''https://api.telegram.org/bot123:abc/sendDocument''
           (FormBody [(''chat_id'', TextField ''42''),
              (''document'', StreamField ''/app/uploads/1700000000000-123456789-cv.pdf'' ''cv.pdf''),
              (''caption'', TextField (''<b>New File Upload</b>'' @ nl @ nl @ ''<b>Name:</b> Ann''
                   @ nl @ ''<b>Email:</b> ann@example.org''))]),
         Unlink ''/app/uploads/1700000000000-123456789-cv.pdf''],
        \<lparr>status = 200, success = True, message = ''File and information sent successfully!''\<rparr>)"
proof -
  have s: "sanitize_fields (JStr ''Ann'') (JStr ''ann@example.org'') JUndefined
            = ([], Inr (''Ann'', ''ann@example.org'', []))"
    by (simp add: sanitize_fields_def comp_defs escape_examples)
  have i: "\<not> startsWith ''application/pdf'' ''image/''"
    by (simp add: startsWith_def)
  have f: "file_branch demo_env \<lparr>fieldname = ''file'', originalname = ''cv.pdf'', mimetype = ''application/pdf'',
                  path = ''/app/uploads/1700000000000-123456789-cv.pdf''\<rparr> ''Ann'' ''ann@example.org'' []
     = ([CreateReadStream ''/app/uploads/1700000000000-123456789-cv.pdf'',
         Fetch ''https://api.telegram.org/bot123:abc/sendDocument''
           (FormBody [(''chat_id'', TextField ''42''),
              (''document'', StreamField ''/app/uploads/1700000000000-123456789-cv.pdf'' ''cv.pdf''),
              (''caption'', TextField (''<b>New File Upload</b>'' @ nl @ nl @ ''<b>Name:</b> Ann''
                   @ nl @ ''<b>Email:</b> ann@example.org''))]),
         Unlink ''/app/uploads/1700000000000-123456789-cv.pdf''],
        Inr \<lparr>status = 200, success = True, message = ''File and information sent successfully!''\<rparr>)"
    using i stored_pdf_inside(1)
    by (simp add: file_branch_def sendTelegramFile_def stored_pdf_removed demo_env_sel comp_defs
        Let_def nl_def)
  have t: "send_file_try demo_env upload_body
             (Some \<lparr>fieldname = ''file'', originalname = ''cv.pdf'', mimetype = ''application/pdf'',
                  path = ''/app/uploads/1700000000000-123456789-cv.pdf''\<rparr>)
           = ([CreateReadStream ''/app/uploads/1700000000000-123456789-cv.pdf'',
         Fetch ''https://api.telegram.org/bot123:abc/sendDocument''
           (FormBody [(''chat_id'', TextField ''42''),
              (''document'', StreamField ''/app/uploads/1700000000000-123456789-cv.pdf'' ''cv.pdf''),
              (''caption'', TextField (''<b>New File Upload</b>'' @ nl @ nl @ ''<b>Name:</b> Ann''
                   @ nl @ ''<b>Email:</b> ann@example.org''))]),
         Unlink ''/app/uploads/1700000000000-123456789-cv.pdf''],
        Some ''/app/uploads/1700000000000-123456789-cv.pdf'',
        Inr \<lparr>status = 200, success = True, message = ''File and information sent successfully!''\<rparr>)"
    by (simp add: send_file_try_def body_field_def body_examples demo_env_sel s f Let_def)
  show ?thesis
    by (simp add: send_file_route_def pdf_upload send_file_handler_def t)
qed

text \<open>
  C2. Claimed: when an upload was saved, the handler of \<^verbatim>\<open>POST /send-file\<close> invokes
  its deletion on every exit path, caught exceptions included. The \<^verbatim>\<open>catch\<close> block
  removes \<^verbatim>\<open>filePath\<close>, which is assigned only inside the file branch; the sanitizer
  runs before that, and raises on a truthy non-string. With the field \<^verbatim>\<open>name[]\<close>
  (multer parses it to an array) and a PDF attached, the upload is saved, the handler
  answers 500, and nothing is unlinked.
\<close>

theorem upload_left_behind_when_sanitizer_raises:
  "upload_single demo_env (Some pdf_part)
     = Inr (Some \<lparr>fieldname = ''file'', originalname = ''cv.pdf'', mimetype = ''application/pdf'',
                  path = ''/app/uploads/1700000000000-123456789-cv.pdf''\<rparr>)
   \<and> send_file_route demo_env array_name_body (Some pdf_part)
     = ([ConsoleError ''Error in /send-file:''],
        \<lparr>status = 500, success = False, message = ''text.replace is not a function''\<rparr>)"
proof -
  have t: "send_file_try demo_env array_name_body
             (Some \<lparr>fieldname = ''file'', originalname = ''cv.pdf'', mimetype = ''application/pdf'',
                  path = ''/app/uploads/1700000000000-123456789-cv.pdf''\<rparr>)
           = ([], None, Inl (JsError ''text.replace is not a function''))"
    by (simp add: send_file_try_def sanitize_fields_def body_field_def body_examples
        demo_env_sel comp_defs Let_def)
  show ?thesis
    by (simp add: send_file_route_def pdf_upload send_file_handler_def t send_file_catch_def)
qed

end
